theory Spec2Isabelle
  imports Main "HOL-Library.Sublist"
begin

section \<open>JavaScript strings and values\<close>

text \<open>
  Strings are \<open>char list\<close>s, and the model covers ASCII strings: on them \<open>toLowerCase\<close>
  maps \<open>A..Z\<close> to \<open>a..z\<close>, \<open>toUpperCase\<close> the other way, and \<open>trim\<close> strips tab, line feed,
  vertical tab, form feed, carriage return and space from both ends, as the JavaScript
  methods do. (On other code points JavaScript also folds non-ASCII letters and strips
  further blanks such as U+00A0 and U+FEFF; such strings are outside the model.) For a
  string value, \<open>null\<close> and \<open>undefined\<close> are both \<open>None\<close>: the code treats them alike.
\<close>

definition upperLetters :: string where
  "upperLetters = ''ABCDEFGHIJKLMNOPQRSTUVWXYZ''"

definition lowerLetters :: string where
  "lowerLetters = ''abcdefghijklmnopqrstuvwxyz''"

definition digitChars :: string where
  "digitChars = ''0123456789''"

definition lowerChar :: "char \<Rightarrow> char" where
  "lowerChar c = (case map_of (zip upperLetters lowerLetters) c of None \<Rightarrow> c | Some l \<Rightarrow> l)"

definition upperChar :: "char \<Rightarrow> char" where
  "upperChar c = (case map_of (zip lowerLetters upperLetters) c of None \<Rightarrow> c | Some u \<Rightarrow> u)"

definition toLowerCase :: "string \<Rightarrow> string" where
  "toLowerCase s = map lowerChar s"

definition toUpperCase :: "string \<Rightarrow> string" where
  "toUpperCase s = map upperChar s"

definition isSpace :: "char \<Rightarrow> bool" where
  "isSpace c = (c \<in> set [CHR 0x09, CHR 0x0A, CHR 0x0B, CHR 0x0C, CHR 0x0D, CHR '' ''])"

definition trim :: "string \<Rightarrow> string" where
  "trim s = rev (dropWhile isSpace (rev (dropWhile isSpace s)))"

text \<open>\<open>hay.includes(needle)\<close>: \<open>needle\<close> occurs as a contiguous substring of \<open>hay\<close>.\<close>

definition str_includes :: "string \<Rightarrow> string \<Rightarrow> bool" where
  "str_includes hay needle = sublist needle hay"

text \<open>\<open>s.padStart(n, c)\<close> for a one-character pad string.\<close>

definition padStart :: "nat \<Rightarrow> char \<Rightarrow> string \<Rightarrow> string" where
  "padStart n c s = replicate (n - length s) c @ s"

text \<open>
  \<open>toString()\<close> of an integer: its decimal digits, after a minus sign if negative. This is
  what JavaScript prints for the integers a JSON number holds exactly (below \<open>2^53\<close> in
  absolute value); a CIK has at most ten digits. Larger numbers, which JavaScript rounds
  and from \<open>1e21\<close> prints with an exponent, are outside the model.
\<close>

function digitsOf :: "int \<Rightarrow> string" where
  "digitsOf n = (if n < 10 then [digitChars ! nat n] else digitsOf (n div 10) @ [digitChars ! nat (n mod 10)])"
  by pat_completeness auto
termination
  by (relation "measure nat") auto

declare digitsOf.simps [simp del]

definition toString :: "int \<Rightarrow> string" where
  "toString n = (if n < 0 then ''-'' @ digitsOf (- n) else digitsOf n)"



text \<open>A string value is truthy when it is neither \<open>null\<close>/\<open>undefined\<close> nor empty.\<close>

fun truthy :: "string option \<Rightarrow> bool" where
  "truthy None = False"
| "truthy (Some s) = (s \<noteq> [])"

text \<open>\<open>a || d\<close> where \<open>d\<close> is a string.\<close>

fun js_or :: "string option \<Rightarrow> string \<Rightarrow> string" where
  "js_or None d = d"
| "js_or (Some s) d = (if s = [] then d else s)"

datatype error = NetworkError | TypeError

section \<open>Identifier resolution (sec-finance.js)\<close>

text \<open>
  One row of \<open>company_tickers_exchange.json\<close>, seen through the three column indices the
  code looks up: \<open>row[cikIndex]\<close>, \<open>row[nameIndex]\<close> and \<open>row[tickerIndex]\<close>. The CIK cell
  is a number, \<open>null\<close>, or \<open>undefined\<close> when the column is missing; for the two string
  cells a missing column or a \<open>null\<close> cell is \<open>None\<close>.
\<close>

datatype cell = Undefined | Null | Number int

record row =
  row_cik :: cell
  row_name :: "string option"
  row_ticker :: "string option"

text \<open>\<open>companyCache\<close>: a \<open>Map\<close> from key to a CIK or \<open>null\<close>. \<open>has(key)\<close> is \<open>cache key \<noteq> None\<close>.\<close>

type_synonym cache = "string \<rightharpoonup> string option"

text \<open>\<open>const key = (name || ticker || "").toLowerCase()\<close>\<close>

definition lookupKey :: "string option \<Rightarrow> string option \<Rightarrow> string" where
  "lookupKey name ticker = toLowerCase (js_or name (js_or ticker []))"

text \<open>\<open>x?.toLowerCase().trim()\<close>\<close>

definition normalise :: "string option \<Rightarrow> string option" where
  "normalise x = map_option (\<lambda>s. trim (toLowerCase s)) x"

text \<open>\<open>row[cikIndex].toString().padStart(10, "0")\<close>; a \<open>null\<close> or missing cell raises.\<close>

definition formatCik :: "row \<Rightarrow> error + string option" where
  "formatCik r = (case row_cik r of
                    Undefined \<Rightarrow> Inl TypeError
                  | Null \<Rightarrow> Inl TypeError
                  | Number n \<Rightarrow> Inr (Some (padStart 10 (CHR ''0'') (toString n))))"

text \<open>
  The \<open>for (const row of data)\<close> loop with its \<open>bestMatch\<close> variable, followed by the
  computation of \<open>cik\<close> after the loop. \<open>Inl\<close> is an exception thrown inside the \<open>try\<close>.
\<close>

fun scanRows :: "string option \<Rightarrow> string option \<Rightarrow> row option \<Rightarrow> row list \<Rightarrow> error + string option" where
  "scanRows searchName searchTicker bestMatch [] =
     (case bestMatch of None \<Rightarrow> Inr None | Some b \<Rightarrow> formatCik b)"
| "scanRows searchName searchTicker bestMatch (r # rows) =
     (let rowName = map_option toLowerCase (row_name r);
          rowTicker = map_option toLowerCase (row_ticker r)
      in if truthy searchTicker \<and> rowTicker = searchTicker then formatCik r
         else if truthy searchName then
           (case rowName of
              None \<Rightarrow> Inl TypeError
            | Some rn \<Rightarrow>
                if Some rn = searchName \<or> str_includes rn (js_or searchName []) then
                  scanRows searchName searchTicker (Some r) rows
                else scanRows searchName searchTicker bestMatch rows)
         else scanRows searchName searchTicker bestMatch rows)"

text \<open>Which way a call went; kept beside the result to count table fetches and scans.\<close>

datatype path = ServedFromCache | FetchFailed | ScanRaised | ScanCompleted

text \<open>
  \<open>getCIKFromCompanyOrTicker(name, ticker)\<close> of sec-finance.js. \<open>table\<close> is what the
  \<open>axios.get\<close> of the reference table and the destructuring of its body give in this call:
  \<open>Inl\<close> when they throw. The result is the returned value (\<open>None\<close> is \<open>null\<close>), the cache
  after the call and the path taken.
\<close>

definition getCIKFromCompanyOrTicker ::
  "(error + row list) \<Rightarrow> cache \<Rightarrow> string option \<Rightarrow> string option \<Rightarrow> string option \<times> cache \<times> path" where
  "getCIKFromCompanyOrTicker table companyCache name ticker =
     (let key = lookupKey name ticker in
      case companyCache key of
        Some v \<Rightarrow> (v, companyCache, ServedFromCache)
      | None \<Rightarrow>
          (case table of
             Inl e \<Rightarrow> (None, companyCache, FetchFailed)
           | Inr rows \<Rightarrow>
               (case scanRows (normalise name) (normalise ticker) None rows of
                  Inl e \<Rightarrow> (None, companyCache, ScanRaised)
                | Inr cik \<Rightarrow> (cik, companyCache(key \<mapsto> cik), ScanCompleted))))"

text \<open>
  The passes over the table a call begins: one when the table was fetched, whether the
  pass then completed or ended in an exception (inside the loop, or at the \<open>cik\<close>
  computed after it).
\<close>

definition scans :: "path \<Rightarrow> nat" where
  "scans p = (if p = ScanCompleted \<or> p = ScanRaised then 1 else 0)"

text \<open>The table fetches a call makes.\<close>

definition fetches :: "path \<Rightarrow> nat" where
  "fetches p = (if p = ServedFromCache then 0 else 1)"

section \<open>Identifier resolution, the copy in sharepoint-search.js\<close>

text \<open>
  The second module of sharepoint-search.js has its own \<open>getCIKFromCompanyOrTicker\<close>,
  without a cache: the first row that matches by name or by ticker is returned.
\<close>

fun scanRowsFirst :: "string option \<Rightarrow> string option \<Rightarrow> row list \<Rightarrow> error + string option" where
  "scanRowsFirst searchName searchTicker [] = Inr None"
| "scanRowsFirst searchName searchTicker (r # rows) =
     (let rowName = map_option toLowerCase (row_name r);
          rowTicker = map_option toLowerCase (row_ticker r)
      in if truthy searchName then
           (case rowName of
              None \<Rightarrow> Inl TypeError
            | Some rn \<Rightarrow>
                if str_includes rn (js_or searchName []) then formatCik r
                else if truthy searchTicker \<and> rowTicker = searchTicker then formatCik r
                else scanRowsFirst searchName searchTicker rows)
         else if truthy searchTicker \<and> rowTicker = searchTicker then formatCik r
         else scanRowsFirst searchName searchTicker rows)"

definition getCIKFromCompanyOrTicker_sharepoint ::
  "(error + row list) \<Rightarrow> string option \<Rightarrow> string option \<Rightarrow> string option" where
  "getCIKFromCompanyOrTicker_sharepoint table name ticker =
     (case table of
        Inl e \<Rightarrow> None
      | Inr rows \<Rightarrow>
          (case scanRowsFirst (normalise name) (normalise ticker) rows of
             Inl e \<Rightarrow> None
           | Inr cik \<Rightarrow> cik))"

section \<open>Per-entity filings (fetchFilingsFromSECByCIK)\<close>

text \<open>
  \<open>res.data\<close> of \<open>https://data.sec.gov/submissions/CIK<cik>.json\<close>: the entity's name and
  \<open>filings.recent\<close>, four parallel arrays. An absent array is \<open>None\<close>; reading an array
  past its end gives \<open>undefined\<close>, reading an absent array throws.
\<close>

record recent =
  r_accessionNumber :: "string list option"
  r_filingDate :: "string list option"
  r_form :: "string list option"
  r_primaryDocument :: "string list option"

record submissions =
  s_name :: "string option"
  s_recent :: "recent option"

record filing =
  cik :: string
  companyName :: string
  ticker :: "string option"
  accessionNumber :: "string option"
  filingDate :: "string option"
  form :: "string option"
  primaryDocument :: "string option"

text \<open>\<open>arr[i]\<close>\<close>

definition at_index :: "'a list option \<Rightarrow> nat \<Rightarrow> error + 'a option" where
  "at_index arr i =
     (case arr of None \<Rightarrow> Inl TypeError
      | Some xs \<Rightarrow> Inr (if i < length xs then Some (xs ! i) else None))"

text \<open>\<open>String(row[cikIndex])\<close>\<close>

definition String_of :: "cell \<Rightarrow> string" where
  "String_of v = (case v of
                    Undefined \<Rightarrow> ''undefined''
                  | Null \<Rightarrow> ''null''
                  | Number n \<Rightarrow> toString n)"

text \<open>
  The inner \<open>try\<close>: the ticker of the row whose padded CIK equals \<open>cik\<close>; \<open>""\<close> when the
  table fetch throws or no row is found.
\<close>

definition lookupTicker :: "(error + row list) \<Rightarrow> string \<Rightarrow> string option" where
  "lookupTicker tickersResp c =
     (case tickersResp of
        Inl e \<Rightarrow> Some []
      | Inr rows \<Rightarrow>
          (case find (\<lambda>r. padStart 10 (CHR ''0'') (String_of (row_cik r)) = c) rows of
             None \<Rightarrow> Some []
           | Some found \<Rightarrow> row_ticker found))"

text \<open>
  \<open>formFilter && !form.toUpperCase().includes(formFilter.toUpperCase())\<close>: \<open>Inr True\<close>
  means \<open>continue\<close>; an \<open>undefined\<close> form under a filter throws.
\<close>

definition filteredOut :: "string option \<Rightarrow> string option \<Rightarrow> error + bool" where
  "filteredOut formFilter fm =
     (if truthy formFilter then
        (case fm of
           None \<Rightarrow> Inl TypeError
         | Some f \<Rightarrow> Inr (\<not> str_includes (toUpperCase f) (toUpperCase (js_or formFilter []))))
      else Inr False)"

text \<open>
  The body of \<open>for (let i = 0; i < Math.min(recent.accessionNumber.length, limit); i++)\<close>,
  run over the indices of that range in order; \<open>filings\<close> is the array built so far.
\<close>

fun collectFilings ::
  "string \<Rightarrow> string \<Rightarrow> string option \<Rightarrow> recent \<Rightarrow> string option \<Rightarrow> nat list \<Rightarrow> filing list
     \<Rightarrow> error + filing list" where
  "collectFilings c nm tk rc formFilter [] filings = Inr filings"
| "collectFilings c nm tk rc formFilter (i # is) filings =
     (case at_index (r_form rc) i of
        Inl e \<Rightarrow> Inl e
      | Inr fm \<Rightarrow>
          (case filteredOut formFilter fm of
             Inl e \<Rightarrow> Inl e
           | Inr True \<Rightarrow> collectFilings c nm tk rc formFilter is filings
           | Inr False \<Rightarrow>
               (case at_index (r_accessionNumber rc) i of
                  Inl e \<Rightarrow> Inl e
                | Inr an \<Rightarrow>
                    (case at_index (r_filingDate rc) i of
                       Inl e \<Rightarrow> Inl e
                     | Inr fd \<Rightarrow>
                         (case at_index (r_primaryDocument rc) i of
                            Inl e \<Rightarrow> Inl e
                          | Inr pd \<Rightarrow>
                              collectFilings c nm tk rc formFilter is
                                (filings @ [\<lparr>cik = c, companyName = nm, ticker = tk,
                                   accessionNumber = an, filingDate = fd, form = fm,
                                   primaryDocument = pd\<rparr>]))))))"

text \<open>
  The body of the outer \<open>try\<close> of \<open>fetchFilingsFromSECByCIK(cik, limit, formFilter)\<close>.
  \<open>res\<close> is the outcome of the submissions fetch, \<open>tickersResp\<close> that of the ticker-table
  fetch of the inner \<open>try\<close>. \<open>Inl\<close> is an exception that reaches the outer \<open>catch\<close>.
\<close>

definition fetchFilingsBody ::
  "(error + submissions) \<Rightarrow> (error + row list) \<Rightarrow> string \<Rightarrow> nat \<Rightarrow> string option
     \<Rightarrow> error + filing list" where
  "fetchFilingsBody res tickersResp c limit formFilter =
     (case res of
        Inl e \<Rightarrow> Inl e
      | Inr data \<Rightarrow>
          (case s_recent data of
             None \<Rightarrow> Inr []
           | Some rc \<Rightarrow>
               (case r_accessionNumber rc of
                  None \<Rightarrow> Inr []
                | Some acc \<Rightarrow>
                    collectFilings c (js_or (s_name data) []) (lookupTicker tickersResp c) rc
                      formFilter [0..<min (length acc) limit] [])))"

text \<open>\<open>fetchFilingsFromSECByCIK\<close>: the outer \<open>catch\<close> logs and returns \<open>[]\<close>.\<close>

definition fetchFilingsFromSECByCIK ::
  "(error + submissions) \<Rightarrow> (error + row list) \<Rightarrow> string \<Rightarrow> nat \<Rightarrow> string option \<Rightarrow> filing list" where
  "fetchFilingsFromSECByCIK res tickersResp c limit formFilter =
     (case fetchFilingsBody res tickersResp c limit formFilter of
        Inl e \<Rightarrow> []
      | Inr filings \<Rightarrow> filings)"

section \<open>Full-universe aggregation (fetchLatestFilingsByForm)\<close>

text \<open>\<open>`${f.cik}-${f.accessionNumber}`\<close>\<close>

definition dedupKey :: "filing \<Rightarrow> string" where
  "dedupKey f = cik f @ ''-'' @ (case accessionNumber f of None \<Rightarrow> ''undefined'' | Some a \<Rightarrow> a)"

text \<open>\<open>for (const f of arr)\<close>: push \<open>f\<close> unless its key is already collected; stop at the limit.\<close>

fun consumeArr :: "nat \<Rightarrow> filing list \<Rightarrow> filing list \<Rightarrow> filing list" where
  "consumeArr limit collected [] = collected"
| "consumeArr limit collected (f # fs) =
     (if find (\<lambda>x. dedupKey x = dedupKey f) collected = None then
        (let collected' = collected @ [f]
         in if limit \<le> length collected' then collected' else consumeArr limit collected' fs)
      else consumeArr limit collected fs)"

text \<open>\<open>for (const arr of results)\<close>: empty results are skipped; stop at the limit.\<close>

fun consumeResults :: "nat \<Rightarrow> filing list \<Rightarrow> filing list list \<Rightarrow> filing list" where
  "consumeResults limit collected [] = collected"
| "consumeResults limit collected (arr # results) =
     (if arr = [] then consumeResults limit collected results
      else (let collected' = consumeArr limit collected arr
            in if limit \<le> length collected' then collected'
               else consumeResults limit collected' results))"

definition BATCH_SIZE :: nat where
  "BATCH_SIZE = 5"

text \<open>\<open>xs.slice(i, j)\<close> for \<open>0 \<le> i \<le> j\<close>\<close>

definition slice :: "nat \<Rightarrow> nat \<Rightarrow> 'a list \<Rightarrow> 'a list" where
  "slice i j xs = take (j - i) (drop i xs)"

text \<open>
  The state of the window loop: \<open>collected\<close>, and the windows issued so far, each with the
  number of filings collected when it was issued and the CIKs fetched in it.
\<close>

record agg_state =
  collected :: "filing list"
  issued :: "(nat \<times> string list) list"

text \<open>
  \<open>for (let i = 0; i < ciks.length && collected.length < limit; i += BATCH_SIZE)\<close>.
  \<open>fetch j c\<close> is what the per-entity fetch issued for position \<open>j\<close> of \<open>ciks\<close> (the CIK
  \<open>c\<close>) resolves to; all fetches of a window are issued before any result is consumed.
\<close>

function fetchLoop ::
  "(nat \<Rightarrow> string \<Rightarrow> filing list) \<Rightarrow> nat \<Rightarrow> string list \<Rightarrow> nat \<Rightarrow> agg_state \<Rightarrow> agg_state" where
  "fetchLoop fetch limit ciks i st =
     (if i < length ciks \<and> length (collected st) < limit then
        (let batch = slice i (i + BATCH_SIZE) ciks;
             results = map (\<lambda>(j, c). fetch j c) (zip [i..<i + length batch] batch)
         in fetchLoop fetch limit ciks (i + BATCH_SIZE)
              \<lparr>collected = consumeResults limit (collected st) results,
               issued = issued st @ [(length (collected st), batch)]\<rparr>)
      else st)"
  by pat_completeness auto
termination
  by (relation "measure (\<lambda>(fetch, limit, ciks, i, st). length ciks - i)") (auto simp: BATCH_SIZE_def)

declare fetchLoop.simps [simp del]

text \<open>
  \<open>Array.prototype.sort\<close> with a comparator is stable; it is modelled by a stable
  insertion sort, \<open>x\<close> going before the first \<open>y\<close> with \<open>cmp x y \<le> 0\<close>. (For a comparator
  that is not a consistent ordering the order is implementation-defined.)
\<close>

fun insertBy :: "('a \<Rightarrow> 'a \<Rightarrow> int) \<Rightarrow> 'a \<Rightarrow> 'a list \<Rightarrow> 'a list" where
  "insertBy cmp x [] = [x]"
| "insertBy cmp x (y # ys) = (if cmp x y \<le> 0 then x # y # ys else y # insertBy cmp x ys)"

definition sortBy :: "('a \<Rightarrow> 'a \<Rightarrow> int) \<Rightarrow> 'a list \<Rightarrow> 'a list" where
  "sortBy cmp xs = foldr (insertBy cmp) xs []"


text \<open>
  What a call of \<open>fetchLatestFilingsByForm\<close> meets: the \<open>Date\<close> constructor, the outcome of
  the ticker-table fetch, and for the entity at position \<open>j\<close> with CIK \<open>c\<close> the outcomes of
  the two fetches made by its \<open>fetchFilingsFromSECByCIK\<close> call.
\<close>

record world =
  w_dateValue :: "string option \<Rightarrow> int option"
  w_tickersResp :: "error + row list"
  w_submissions :: "nat \<Rightarrow> string \<Rightarrow> error + submissions"
  w_entityTickers :: "nat \<Rightarrow> string \<Rightarrow> error + row list"

definition perEntity :: "world \<Rightarrow> string option \<Rightarrow> nat \<Rightarrow> string \<Rightarrow> filing list" where
  "perEntity w formFilter j c =
     fetchFilingsFromSECByCIK (w_submissions w j c) (w_entityTickers w j c) c 10 formFilter"

definition ciksOf :: "row list \<Rightarrow> string list" where
  "ciksOf rows = map (\<lambda>r. padStart 10 (CHR ''0'') (String_of (row_cik r))) rows"

text \<open>The state in which the window loop of \<open>fetchLatestFilingsByForm\<close> ends.\<close>

definition runWindows :: "world \<Rightarrow> string option \<Rightarrow> nat \<Rightarrow> row list \<Rightarrow> agg_state" where
  "runWindows w formFilter limit rows =
     fetchLoop (perEntity w formFilter) limit (ciksOf rows) 0 \<lparr>collected = [], issued = []\<rparr>"


text \<open>What the window loop has collected when the sort starts (\<open>[]\<close> if the table fetch threw).\<close>

definition collectedFilings :: "world \<Rightarrow> string option \<Rightarrow> nat \<Rightarrow> filing list" where
  "collectedFilings w formFilter limit =
     (case w_tickersResp w of
        Inl e \<Rightarrow> []
      | Inr rows \<Rightarrow> collected (runWindows w formFilter limit rows))"

text \<open>The windows issued by a call (none if the table fetch threw).\<close>

definition issuedWindows :: "world \<Rightarrow> string option \<Rightarrow> nat \<Rightarrow> (nat \<times> string list) list" where
  "issuedWindows w formFilter limit =
     (case w_tickersResp w of
        Inl e \<Rightarrow> []
      | Inr rows \<Rightarrow> issued (runWindows w formFilter limit rows))"


text \<open>The entries of \<open>recent\<close> below index \<open>n\<close>.\<close>

definition firstEntries :: "nat \<Rightarrow> recent \<Rightarrow> recent" where
  "firstEntries n rc =
     \<lparr>r_accessionNumber = map_option (take n) (r_accessionNumber rc),
      r_filingDate = map_option (take n) (r_filingDate rc),
      r_form = map_option (take n) (r_form rc),
      r_primaryDocument = map_option (take n) (r_primaryDocument rc)\<rparr>"

section \<open>Keyword extraction and candidate ranking (sharepoint-search.js)\<close>

definition stopWords :: "string list" where
  "stopWords =
     [''the'', ''is'', ''are'', ''am'', ''was'', ''were'', ''a'', ''an'', ''and'', ''or'', ''for'', ''to'',
      ''of'', ''in'', ''on'', ''at'', ''by'', ''with'', ''from'', ''that'', ''this'', ''it'', ''as'', ''be'',
      ''been'', ''being'', ''if'', ''then'', ''else'', ''what'', ''which'', ''who'', ''when'', ''where'',
      ''how'', ''why'', ''please'', ''give'', ''some'', ''details'', ''here'']"

text \<open>\<open>\w\<close>: a letter, a digit or the underscore.\<close>

definition isWordChar :: "char \<Rightarrow> bool" where
  "isWordChar c = (c \<in> set (upperLetters @ lowerLetters @ digitChars @ ''_''))"

text \<open>
  \<open>s.match(/\w{3,}/g)\<close>: the maximal runs of word characters of length at least 3, from
  left to right. \<open>cur\<close> is the run being read.
\<close>

fun matchWords :: "string \<Rightarrow> string \<Rightarrow> string list" where
  "matchWords cur [] = (if 3 \<le> length cur then [cur] else [])"
| "matchWords cur (c # cs) =
     (if isWordChar c then matchWords (cur @ [c]) cs
      else (if 3 \<le> length cur then [cur] else []) @ matchWords [] cs)"

text \<open>\<open>extractKeywordsArray(query)\<close>; a query that is not a string is \<open>None\<close>.\<close>

definition extractKeywordsArray :: "string option \<Rightarrow> string list" where
  "extractKeywordsArray query =
     (case query of
        None \<Rightarrow> []
      | Some q \<Rightarrow>
          if q = [] then []
          else filter (\<lambda>w. w \<notin> set stopWords) (matchWords [] (toLowerCase q)))"

text \<open>The \<open>for (const kw of keywords)\<close> loop of \<open>countKeywordPresence\<close>.\<close>

fun countLoop :: "string \<Rightarrow> string list \<Rightarrow> nat \<Rightarrow> nat" where
  "countLoop lower [] count = count"
| "countLoop lower (kw # keywords) count =
     countLoop lower keywords (if str_includes lower kw then count + 1 else count)"

definition countKeywordPresence :: "string \<Rightarrow> string list \<Rightarrow> nat" where
  "countKeywordPresence text keywords =
     (if text = [] \<or> keywords = [] then 0 else countLoop (toLowerCase text) keywords 0)"

text \<open>A search hit, and the same with the scoring fields the handler adds.\<close>

record hit =
  hit_id :: string
  name :: "string option"
  driveId :: "string option"
  webUrl :: "string option"

record candidate = hit +
  nameMatches :: nat
  contentMatches :: nat
  score :: nat

text \<open>
  \<open>getFileTextContent(driveId, itemId, token, maxChars)\<close>. The download and the text
  extraction are \<open>content\<close>, which gives the extracted text of a hit (\<open>""\<close> when it cannot
  be read); the cut to \<open>maxChars\<close> is the code's.
\<close>

definition getFileTextContent :: "('a hit_scheme \<Rightarrow> string) \<Rightarrow> 'a hit_scheme \<Rightarrow> nat option \<Rightarrow> string" where
  "getFileTextContent content h maxChars =
     (let text = content h
      in case maxChars of
           None \<Rightarrow> text
         | Some m \<Rightarrow> if m \<noteq> 0 \<and> m < length text then take m text else text)"

text \<open>Step 3 of the handler: filename scoring.\<close>

definition scoreName :: "string list \<Rightarrow> hit \<Rightarrow> candidate" where
  "scoreName keywords file =
     (let nameLower = toLowerCase (js_or (name file) []);
          nm = countKeywordPresence nameLower keywords
      in hit.extend file (candidate.fields nm 0 (nm * 3)))"

text \<open>Step 4: content scoring on a preview of 20000 or 8000 characters.\<close>

definition scoreContent :: "(candidate \<Rightarrow> string) \<Rightarrow> string list \<Rightarrow> nat \<Rightarrow> candidate \<Rightarrow> candidate" where
  "scoreContent content keywords previewMaxChars c =
     (let previewText = getFileTextContent content c (Some previewMaxChars);
          cm = countKeywordPresence previewText keywords
      in c\<lparr>contentMatches := cm, score := nameMatches c * 3 + cm * 1\<rparr>)"

definition previewBudget :: "candidate list \<Rightarrow> nat" where
  "previewBudget candidates = (if \<exists>c \<in> set candidates. 0 < nameMatches c then 8000 else 20000)"

definition scoreCandidates :: "(candidate \<Rightarrow> string) \<Rightarrow> string list \<Rightarrow> hit list \<Rightarrow> candidate list" where
  "scoreCandidates content keywords hits =
     (let candidates = map (scoreName keywords) hits
      in map (scoreContent content keywords (previewBudget candidates)) candidates)"

text \<open>\<open>(a, b) => b.score !== a.score ? b.score - a.score : 0\<close>\<close>

definition byScoreDesc :: "candidate \<Rightarrow> candidate \<Rightarrow> int" where
  "byScoreDesc a b = (if score b \<noteq> score a then int (score b) - int (score a) else 0)"

text \<open>Steps 3 to 5: the ranked candidates, which the response lists as \<open>sources\<close>.\<close>

definition rank :: "(candidate \<Rightarrow> string) \<Rightarrow> string list \<Rightarrow> hit list \<Rightarrow> candidate list" where
  "rank content keywords hits = sortBy byScoreDesc (scoreCandidates content keywords hits)"

section \<open>Scenarios\<close>

text \<open>Two rows of the reference table whose names both contain \<open>apple\<close>.\<close>

definition apple :: row where
  "apple = \<lparr>row_cik = Number 320193, row_name = Some ''Apple Inc.'', row_ticker = Some ''AAPL''\<rparr>"

definition appleHospitality :: row where
  "appleHospitality =
     \<lparr>row_cik = Number 1418121, row_name = Some ''Apple Hospitality REIT, Inc.'',
      row_ticker = Some ''APLE''\<rparr>"

text \<open>The time values of the three dates the scenarios use; any other string is invalid here.\<close>

definition scenarioDate :: "string option \<Rightarrow> int option" where
  "scenarioDate d =
     (if d = Some ''2024-01-01'' then Some 1704067200000
      else if d = Some ''2024-02-01'' then Some 1706745600000
      else if d = Some ''2024-03-01'' then Some 1709251200000
      else None)"

definition alphabetFilings :: submissions where
  "alphabetFilings =
     \<lparr>s_name = Some ''Alphabet Inc.'',
      s_recent = Some
        \<lparr>r_accessionNumber = Some [''0001652044-24-000001'', ''0001652044-24-000002''],
         r_filingDate = Some [''2024-01-01'', ''2024-03-01''],
         r_form = Some [''10-K'', ''10-K/A''],
         r_primaryDocument = Some [''a.htm'', ''b.htm'']\<rparr>\<rparr>"

definition appleFilings :: submissions where
  "appleFilings =
     \<lparr>s_name = Some ''Apple Inc.'',
      s_recent = Some
        \<lparr>r_accessionNumber =
           Some [''0000320193-24-000001'', ''0000320193-24-000002'', ''0000320193-24-000003''],
         r_filingDate = Some [''2024-03-01'', ''2024-02-01'', ''2024-01-01''],
         r_form = Some [''8-K'', ''8-K'', ''10-K''],
         r_primaryDocument = Some [''a.htm'', ''b.htm'', ''c.htm'']\<rparr>\<rparr>"

text \<open>A submissions body whose \<open>form\<close> array is absent: reading it throws.\<close>

definition brokenFilings :: submissions where
  "brokenFilings =
     \<lparr>s_name = Some ''Broken Corp.'',
      s_recent = Some
        \<lparr>r_accessionNumber = Some [''0000000007-24-000001''],
         r_filingDate = Some [''2024-01-01''],
         r_form = None,
         r_primaryDocument = Some [''a.htm'']\<rparr>\<rparr>"

text \<open>
  Alphabet is listed under two tickers, so its CIK occurs twice in the table and its
  filings are fetched twice; every other CIK fails to load.
\<close>

definition scenarioWorld :: world where
  "scenarioWorld =
     \<lparr>w_dateValue = scenarioDate,
      w_tickersResp =
        Inr [\<lparr>row_cik = Number 1652044, row_name = Some ''Alphabet Inc.'', row_ticker = Some ''GOOGL''\<rparr>,
             \<lparr>row_cik = Number 1652044, row_name = Some ''Alphabet Inc.'', row_ticker = Some ''GOOG''\<rparr>,
             apple],
      w_submissions =
        (\<lambda>j c. if c = ''0001652044'' then Inr alphabetFilings
               else if c = ''0000320193'' then Inr appleFilings
               else Inl NetworkError),
      w_entityTickers = (\<lambda>j c. Inl NetworkError)\<rparr>"

text \<open>Twelve entities with one 10-K each.\<close>

definition twelveEntities :: world where
  "twelveEntities =
     \<lparr>w_dateValue = scenarioDate,
      w_tickersResp =
        Inr (map (\<lambda>n. \<lparr>row_cik = Number n, row_name = Some ''Entity'', row_ticker = None\<rparr>)
               [1, 2, 3, 4, 5, 6, 7, 8, 9, 10, 11, 12]),
      w_submissions =
        (\<lambda>j c. Inr \<lparr>s_name = Some ''Entity'',
                     s_recent = Some
                       \<lparr>r_accessionNumber = Some [''0000000000-24-000001''],
                        r_filingDate = Some [''2024-01-01''],
                        r_form = Some [''10-K''],
                        r_primaryDocument = Some [''a.htm'']\<rparr>\<rparr>),
      w_entityTickers = (\<lambda>j c. Inl NetworkError)\<rparr>"

text \<open>A row that matches the name \<open>apple\<close> but whose CIK cell is \<open>null\<close>.\<close>

definition appleNullCik :: row where
  "appleNullCik = \<lparr>row_cik = Null, row_name = Some ''Apple Inc.'', row_ticker = Some ''AAPL''\<rparr>"



definition budgetReport :: hit where
  "budgetReport =
     \<lparr>hit_id = ''01'', name = Some ''Budget Report.docx'', driveId = Some ''d1'', webUrl = None\<rparr>"

definition misc :: hit where
  "misc = \<lparr>hit_id = ''02'', name = Some ''misc'', driveId = Some ''d1'', webUrl = None\<rparr>"

section \<open>Resolution: cache key, cache and scan\<close>

lemma getCIK_cached:
  "companyCache (lookupKey nm tk) = Some v \<Longrightarrow>
   getCIKFromCompanyOrTicker table companyCache nm tk = (v, companyCache, ServedFromCache)"
  by (simp add: getCIKFromCompanyOrTicker_def)

lemma getCIK_cases:
  assumes "getCIKFromCompanyOrTicker table companyCache nm tk = (v, c', p)"
  shows "(p = ServedFromCache \<and> c' = companyCache \<and> companyCache (lookupKey nm tk) = Some v)
       \<or> (p = FetchFailed \<and> c' = companyCache \<and> v = None \<and> companyCache (lookupKey nm tk) = None)
       \<or> (p = ScanRaised \<and> c' = companyCache \<and> v = None \<and> companyCache (lookupKey nm tk) = None)
       \<or> (p = ScanCompleted \<and> c' = companyCache(lookupKey nm tk \<mapsto> v)
            \<and> companyCache (lookupKey nm tk) = None)"
  using assms
  by (auto simp: getCIKFromCompanyOrTicker_def Let_def split: option.splits sum.splits)

text \<open>
  The scan of sec-finance.js gives the ticker priority: the first row whose lower-cased
  ticker equals the search ticker decides, whatever names matched before it, provided
  no row before it throws.
\<close>

lemma scanRows_ticker_priority:
  assumes "truthy st" and "map_option toLowerCase (row_ticker r) = st"
    and "\<forall>x \<in> set pre. map_option toLowerCase (row_ticker x) \<noteq> st"
    and "truthy sn \<longrightarrow> (\<forall>x \<in> set pre. row_name x \<noteq> None)"
  shows "scanRows sn st bm (pre @ r # post) = formatCik r"
  using assms
  by (induction pre arbitrary: bm) (auto simp: Let_def split: option.splits)

lemma lookupKey_zzzz: "lookupKey None (Some ''ZZZZ'') = ''zzzz''"
  by code_simp

lemma lookupKey_zzzz_name: "lookupKey (Some ''zzzz'') (Some ''AAPL'') = ''zzzz''"
  by code_simp

lemma scanRows_zzzz:
  "scanRows (normalise None) (normalise (Some ''ZZZZ'')) None [appleHospitality, apple] = Inr None"
  by code_simp

lemma lookupKey_aapl: "lookupKey None (Some ''AAPL'') = ''aapl''"
  by code_simp

lemma scanRows_aapl:
  "scanRows (normalise None) (normalise (Some ''AAPL'')) None [appleHospitality, apple]
     = Inr (Some ''0000320193'')"
  by code_simp

text \<open>
  C1 (code_bug). The copy in sharepoint-search.js returns the first row that matches by
  name or by ticker: with the name \<open>Apple\<close> and the ticker \<open>AAPL\<close> it answers the CIK of
  Apple Hospitality (ticker \<open>APLE\<close>), which stands before Apple Inc. in the table, although
  a row with ticker \<open>AAPL\<close> exists. On the same input the scan of sec-finance.js answers
  the CIK of the row with ticker \<open>AAPL\<close>.
\<close>

theorem sharepoint_name_match_beats_later_ticker:
  "getCIKFromCompanyOrTicker_sharepoint (Inr [appleHospitality, apple]) (Some ''Apple'') (Some ''AAPL'')
     = Some ''0001418121'' \<and>
   getCIKFromCompanyOrTicker_sharepoint (Inr [apple]) (Some ''Apple'') (Some ''AAPL'')
     = Some ''0000320193'' \<and>
   fst (getCIKFromCompanyOrTicker (Inr [appleHospitality, apple]) Map.empty (Some ''Apple'') (Some ''AAPL''))
     = Some ''0000320193''"
  by code_simp

text \<open>
  C3 as stated fails. A call that ends in the \<open>catch\<close> block stores nothing, so the next
  call with the same key can return another value: after a failed fetch, \<open>null\<close> and then
  the CIK. And when the matched row has a \<open>null\<close> CIK, each of two consecutive calls passes
  over the whole table and throws at the \<open>cik\<close> computed after the loop: two passes,
  nothing cached.
\<close>

theorem getCIK_not_idempotent_after_failure:
  "fst (getCIKFromCompanyOrTicker (Inl NetworkError) Map.empty None (Some ''AAPL'')) = None \<and>
   fst (getCIKFromCompanyOrTicker (Inr [appleHospitality, apple])
          (fst (snd (getCIKFromCompanyOrTicker (Inl NetworkError) Map.empty None (Some ''AAPL''))))
          None (Some ''AAPL'')) = Some ''0000320193'' \<and>
   scans (snd (snd (getCIKFromCompanyOrTicker (Inr [appleNullCik]) Map.empty (Some ''Apple'') None))) +
   scans (snd (snd (getCIKFromCompanyOrTicker (Inr [appleNullCik])
          (fst (snd (getCIKFromCompanyOrTicker (Inr [appleNullCik]) Map.empty (Some ''Apple'') None)))
          (Some ''Apple'') None))) = 2"
  by code_simp

text \<open>
  C3, amended. Once a call of \<open>getCIKFromCompanyOrTicker\<close> has resolved its key, that is,
  was served from the cache or completed its scan, the cache holds the returned value
  under the key, and every later call with the same key, whatever its arguments and
  whatever the table fetch would give, returns that value from the cache, leaves the
  cache as it is and neither fetches nor scans the table; so the two calls begin at most
  one pass over the table. The value may be \<open>null\<close>: a key stored with \<open>null\<close> is answered
  \<open>null\<close> from the cache.
\<close>

theorem getCIK_idempotent_once_resolved:
  "(getCIKFromCompanyOrTicker table companyCache nm tk = (va, ca, pa) \<and>
    (pa = ServedFromCache \<or> pa = ScanCompleted) \<and>
    lookupKey nm' tk' = lookupKey nm tk \<longrightarrow>
      ca (lookupKey nm tk) = Some va \<and>
      getCIKFromCompanyOrTicker table' ca nm' tk' = (va, ca, ServedFromCache) \<and>
      scans pa + scans (snd (snd (getCIKFromCompanyOrTicker table' ca nm' tk'))) \<le> 1 \<and>
      fetches (snd (snd (getCIKFromCompanyOrTicker table' ca nm' tk'))) = 0) \<and>
   (companyCache (lookupKey nm tk) = Some None \<longrightarrow>
      getCIKFromCompanyOrTicker table companyCache nm tk = (None, companyCache, ServedFromCache))"
proof (intro conjI impI)
  assume h: "getCIKFromCompanyOrTicker table companyCache nm tk = (va, ca, pa) \<and>
    (pa = ServedFromCache \<or> pa = ScanCompleted) \<and> lookupKey nm' tk' = lookupKey nm tk"
  from h getCIK_cases[of table companyCache nm tk va ca pa]
  show stored: "ca (lookupKey nm tk) = Some va"
    by auto
  with h show second: "getCIKFromCompanyOrTicker table' ca nm' tk' = (va, ca, ServedFromCache)"
    by (simp add: getCIK_cached)
  from h show "scans pa + scans (snd (snd (getCIKFromCompanyOrTicker table' ca nm' tk'))) \<le> 1"
    by (auto simp: second scans_def)
  show "fetches (snd (snd (getCIKFromCompanyOrTicker table' ca nm' tk'))) = 0"
    by (simp add: second fetches_def)
next
  assume "companyCache (lookupKey nm tk) = Some None"
  then show "getCIKFromCompanyOrTicker table companyCache nm tk = (None, companyCache, ServedFromCache)"
    by (rule getCIK_cached)
qed

text \<open>
  Witness for the amended C3: the ticker \<open>ZZZZ\<close> is in no row, so the first call scans the
  table and stores \<open>null\<close> under \<open>zzzz\<close>; a next call with that key returns \<open>null\<close> from the
  cache, also against another table and with other arguments that give the same key.
\<close>

theorem getCIK_idempotent_once_resolved_witness:
  "getCIKFromCompanyOrTicker (Inr [appleHospitality, apple]) Map.empty None (Some ''ZZZZ'')
     = (None, [''zzzz'' \<mapsto> None], ScanCompleted) \<and>
   lookupKey (Some ''zzzz'') (Some ''AAPL'') = lookupKey None (Some ''ZZZZ'') \<and>
   [''zzzz'' \<mapsto> None] (lookupKey None (Some ''ZZZZ'')) = Some (None :: string option) \<and>
   getCIKFromCompanyOrTicker (Inr [apple]) [''zzzz'' \<mapsto> None] (Some ''zzzz'') (Some ''AAPL'')
     = (None, [''zzzz'' \<mapsto> None], ServedFromCache) \<and>
   getCIKFromCompanyOrTicker (Inr [appleHospitality, apple]) [''zzzz'' \<mapsto> None] None (Some ''ZZZZ'')
     = (None, [''zzzz'' \<mapsto> None], ServedFromCache)"
proof -
  have first: "getCIKFromCompanyOrTicker (Inr [appleHospitality, apple]) Map.empty None (Some ''ZZZZ'')
     = (None, [''zzzz'' \<mapsto> None], ScanCompleted)"
    by (simp add: getCIKFromCompanyOrTicker_def lookupKey_zzzz scanRows_zzzz del: scanRows.simps)
  have key: "lookupKey (Some ''zzzz'') (Some ''AAPL'') = lookupKey None (Some ''ZZZZ'')"
    by (simp add: lookupKey_zzzz lookupKey_zzzz_name)
  have resolved: "ScanCompleted = ServedFromCache \<or> ScanCompleted = ScanCompleted"
    by simp
  note inst = getCIK_idempotent_once_resolved[where table = "Inr [appleHospitality, apple]"
      and companyCache = Map.empty and nm = None and tk = "Some ''ZZZZ''" and va = None
      and ca = "[''zzzz'' \<mapsto> None]" and pa = ScanCompleted and nm' = "Some ''zzzz''"
      and tk' = "Some ''AAPL''" and table' = "Inr [apple]"]
  note a = inst[THEN conjunct1, THEN mp, OF conjI[OF first conjI[OF resolved key]]]
  note stored = a[THEN conjunct1]
  note second = a[THEN conjunct2, THEN conjunct1]
  note third = getCIK_idempotent_once_resolved[where companyCache = "[''zzzz'' \<mapsto> None]"
      and nm = None and tk = "Some ''ZZZZ''" and table = "Inr [appleHospitality, apple]",
      THEN conjunct2, THEN mp, OF stored]
  show ?thesis
    by (rule conjI[OF first conjI[OF key conjI[OF stored conjI[OF second third]]]])
qed

text \<open>
  C4 (code_bug). With a name and a ticker the key is the lower-cased name, not the
  ticker, and it is not trimmed although the search terms are. The handler first
  resolves \<open>(companyName, null)\<close>; when no row matches the name, \<open>null\<close> is stored under the
  name. Its later call \<open>(companyName, resolvedTicker)\<close>, commented "If ticker known,
  resolve CIK again", has the same key and so returns the stored \<open>null\<close>, although the row
  with that ticker is in the table and the same call on an empty cache finds it.
\<close>

theorem lookupKey_name_first_defeats_retry:
  "lookupKey (Some ''Apple'') (Some ''AAPL'') = ''apple'' \<and>
   trim (toLowerCase ''AAPL'') = ''aapl'' \<and>
   lookupKey None (Some '' AAPL '') = '' aapl '' \<and>
   lookupKey (Some ''Apple Computer'') None = lookupKey (Some ''Apple Computer'') (Some ''AAPL'') \<and>
   fst (getCIKFromCompanyOrTicker (Inr [appleHospitality, apple]) Map.empty (Some ''Apple Computer'') None)
     = None \<and>
   fst (getCIKFromCompanyOrTicker (Inr [appleHospitality, apple])
          (fst (snd (getCIKFromCompanyOrTicker (Inr [appleHospitality, apple]) Map.empty
                       (Some ''Apple Computer'') None)))
          (Some ''Apple Computer'') (Some ''AAPL'')) = None \<and>
   snd (snd (getCIKFromCompanyOrTicker (Inr [appleHospitality, apple])
          (fst (snd (getCIKFromCompanyOrTicker (Inr [appleHospitality, apple]) Map.empty
                       (Some ''Apple Computer'') None)))
          (Some ''Apple Computer'') (Some ''AAPL''))) = ServedFromCache \<and>
   fst (getCIKFromCompanyOrTicker (Inr [appleHospitality, apple]) Map.empty
          (Some ''Apple Computer'') (Some ''AAPL'')) = Some ''0000320193''"
  by code_simp

text \<open>What the key is, for all arguments: the name comes first and nothing is trimmed.\<close>

lemma lookupKey_name_first:
  "(n \<noteq> [] \<longrightarrow> lookupKey (Some n) tk = toLowerCase n) \<and>
   (\<not> truthy nm \<longrightarrow> lookupKey nm (Some t) = toLowerCase t) \<and>
   (\<not> truthy nm \<and> \<not> truthy tk \<longrightarrow> lookupKey nm tk = [])"
  by (cases nm; cases tk) (auto simp: lookupKey_def toLowerCase_def)

text \<open>
  C9. When the key is not cached and the table fetch throws, the call returns \<open>null\<close> and
  leaves the cache as it was, so the next call with these arguments fetches the table
  again, whatever the fetch then gives. A call changes the cache only when its scan
  completed, and then by storing the returned value under the key.
\<close>

theorem getCIK_failure_not_cached:
  "(companyCache (lookupKey nm tk) = None \<longrightarrow>
      getCIKFromCompanyOrTicker (Inl e) companyCache nm tk = (None, companyCache, FetchFailed) \<and>
      (\<forall>table'. fetches (snd (snd (getCIKFromCompanyOrTicker table' companyCache nm tk))) = 1)) \<and>
   (\<forall>table v c' p. getCIKFromCompanyOrTicker table companyCache nm tk = (v, c', p) \<longrightarrow>
      (if p = ScanCompleted then c' = companyCache(lookupKey nm tk \<mapsto> v) else c' = companyCache))"
proof (intro conjI impI allI)
  assume miss: "companyCache (lookupKey nm tk) = None"
  show "getCIKFromCompanyOrTicker (Inl e) companyCache nm tk = (None, companyCache, FetchFailed)"
    using miss by (simp add: getCIKFromCompanyOrTicker_def)
  fix table'
  show "fetches (snd (snd (getCIKFromCompanyOrTicker table' companyCache nm tk))) = 1"
    using miss by (simp add: getCIKFromCompanyOrTicker_def fetches_def split: sum.splits)
next
  fix table v c' p
  assume "getCIKFromCompanyOrTicker table companyCache nm tk = (v, c', p)"
  from getCIK_cases[OF this]
  show "if p = ScanCompleted then c' = companyCache(lookupKey nm tk \<mapsto> v) else c' = companyCache"
    by auto
qed

text \<open>
  Witness for C9: with an empty cache a failed fetch for the ticker \<open>AAPL\<close> returns \<open>null\<close>
  and writes nothing; the next call fetches again, finds the row and stores its CIK.
\<close>

theorem getCIK_failure_not_cached_witness:
  "Map.empty (lookupKey None (Some ''AAPL'')) = (None :: string option option) \<and>
   getCIKFromCompanyOrTicker (Inl NetworkError) Map.empty None (Some ''AAPL'')
     = (None, Map.empty, FetchFailed) \<and>
   fetches (snd (snd (getCIKFromCompanyOrTicker (Inr [appleHospitality, apple]) Map.empty None
      (Some ''AAPL'')))) = 1 \<and>
   getCIKFromCompanyOrTicker (Inr [appleHospitality, apple]) Map.empty None (Some ''AAPL'')
     = (Some ''0000320193'', [''aapl'' \<mapsto> Some ''0000320193''], ScanCompleted) \<and>
   [''aapl'' \<mapsto> Some ''0000320193''] = Map.empty(lookupKey None (Some ''AAPL'') \<mapsto> Some ''0000320193'')"
proof -
  have miss: "Map.empty (lookupKey None (Some ''AAPL'')) = (None :: string option option)"
    by simp
  have run: "getCIKFromCompanyOrTicker (Inr [appleHospitality, apple]) Map.empty None (Some ''AAPL'')
     = (Some ''0000320193'', [''aapl'' \<mapsto> Some ''0000320193''], ScanCompleted)"
    by (simp add: getCIKFromCompanyOrTicker_def lookupKey_aapl scanRows_aapl del: scanRows.simps)
  note inst = getCIK_failure_not_cached[where companyCache = Map.empty and nm = None
      and tk = "Some ''AAPL''" and e = NetworkError]
  note ab = inst[THEN conjunct1, THEN mp, OF miss]
  note a = ab[THEN conjunct1]
  note b = ab[THEN conjunct2, THEN spec, of "Inr [appleHospitality, apple]"]
  from inst[THEN conjunct2, THEN spec, THEN spec, THEN spec, THEN spec, THEN mp, OF run]
  have c: "[''aapl'' \<mapsto> Some ''0000320193''] = Map.empty(lookupKey None (Some ''AAPL'') \<mapsto> Some ''0000320193'')"
    by simp
  from miss a b run c show ?thesis by simp
qed


section \<open>The sort\<close>

lemma sortBy_Nil: "sortBy cmp [] = []"
  by (simp add: sortBy_def)

lemma sortBy_Cons: "sortBy cmp (x # xs) = insertBy cmp x (sortBy cmp xs)"
  by (simp add: sortBy_def)

lemma set_insertBy: "set (insertBy cmp x ys) = insert x (set ys)"
  by (induction ys) auto

lemma set_sortBy: "set (sortBy cmp xs) = set xs"
  by (induction xs) (simp_all add: sortBy_Nil sortBy_Cons set_insertBy)

lemma length_insertBy: "length (insertBy cmp x ys) = Suc (length ys)"
  by (induction ys) auto

lemma length_sortBy: "length (sortBy cmp xs) = length xs"
  by (induction xs) (simp_all add: sortBy_Nil sortBy_Cons length_insertBy)





section \<open>Aggregation: dedup, budget and windows\<close>




lemma set_consumeArr: "set (consumeArr limit col arr) \<subseteq> set col \<union> set arr"
proof (induction arr arbitrary: col)
  case Nil
  then show ?case by simp
next
  case (Cons f fs)
  show ?case using Cons.IH[of col] Cons.IH[of "col @ [f]"]
    by (auto simp: Let_def)
qed

lemma set_consumeResults:
  "set (consumeResults limit col results) \<subseteq> set col \<union> \<Union> (set ` set results)"
proof (induction results arbitrary: col)
  case Nil
  then show ?case by simp
next
  case (Cons arr results)
  show ?case using Cons.IH[of col] Cons.IH[of "consumeArr limit col arr"] set_consumeArr[of limit col arr]
    by (auto simp: Let_def)
qed

lemma length_consumeArr:
  "length col < limit \<Longrightarrow> length (consumeArr limit col arr) \<le> limit"
  by (induction arr arbitrary: col) (auto simp: Let_def not_le)

lemma length_consumeResults:
  "length col < limit \<Longrightarrow> length (consumeResults limit col results) \<le> limit"
  by (induction results arbitrary: col) (auto simp: Let_def length_consumeArr not_le)

lemma fetchLoop_invariant:
  assumes "P st"
    and "\<And>st i. P st \<Longrightarrow> i < length ciks \<Longrightarrow> length (collected st) < limit \<Longrightarrow>
           P \<lparr>collected = consumeResults limit (collected st)
                 (map (\<lambda>(j, c). fetch j c)
                    (zip [i..<i + length (slice i (i + BATCH_SIZE) ciks)] (slice i (i + BATCH_SIZE) ciks))),
              issued = issued st @ [(length (collected st), slice i (i + BATCH_SIZE) ciks)]\<rparr>"
  shows "P (fetchLoop fetch limit ciks i st)"
  using assms
proof (induction fetch limit ciks i st rule: fetchLoop.induct)
  case (1 fetch limit ciks i st)
  show ?case
  proof (cases "i < length ciks \<and> length (collected st) < limit")
    case True
    have step: "P \<lparr>collected = consumeResults limit (collected st)
                 (map (\<lambda>(j, c). fetch j c)
                    (zip [i..<i + length (slice i (i + BATCH_SIZE) ciks)] (slice i (i + BATCH_SIZE) ciks))),
              issued = issued st @ [(length (collected st), slice i (i + BATCH_SIZE) ciks)]\<rparr>"
      using "1.prems"(1) True by (intro "1.prems"(2)) auto
    show ?thesis
      using "1.IH"[OF True refl refl step "1.prems"(2)] True
      by (subst fetchLoop.simps) (simp add: Let_def)
  next
    case False
    then show ?thesis using "1.prems"(1) by (subst fetchLoop.simps) auto
  qed
qed







lemma length_runWindows:
  "length (collected (runWindows w ff limit rows)) \<le> limit"
  unfolding runWindows_def
  by (rule fetchLoop_invariant) (simp_all add: length_consumeResults)

lemma issued_runWindows:
  "\<forall>(n, batch) \<in> set (issued (runWindows w ff limit rows)). n < limit"
  unfolding runWindows_def
  by (rule fetchLoop_invariant) auto





lemma consumeResults_stop:
  "arr \<noteq> [] \<Longrightarrow> limit \<le> length (consumeArr limit col arr) \<Longrightarrow>
   consumeResults limit col (arr # rest) = consumeArr limit col arr"
  by (simp add: Let_def)

text \<open>
  C5. Every window was issued while fewer filings than the limit were collected, and the
  collected filings never exceed the limit; a loop state that has reached the limit issues
  nothing more; and inside a window the results after the entity whose result reached
  the limit are not consumed.
\<close>

theorem fetchLoop_stops_at_budget:
  "(\<forall>(n, batch) \<in> set (issuedWindows w ff limit). n < limit) \<and>
   length (collectedFilings w ff limit) \<le> limit \<and>
   (limit \<le> length (collected st) \<longrightarrow> fetchLoop fetch limit ciks i st = st) \<and>
   (arr \<noteq> [] \<and> limit \<le> length (consumeArr limit col arr) \<longrightarrow>
      consumeResults limit col (arr # rest) = consumeArr limit col arr)"
proof (intro conjI impI)
  show "\<forall>(n, batch) \<in> set (issuedWindows w ff limit). n < limit"
    using issued_runWindows[of w ff limit] by (cases "w_tickersResp w") (simp_all add: issuedWindows_def)
  show "length (collectedFilings w ff limit) \<le> limit"
    by (simp add: collectedFilings_def length_runWindows split: sum.splits)
  show "fetchLoop fetch limit ciks i st = st" if "limit \<le> length (collected st)"
    using that by (subst fetchLoop.simps) simp
  show "consumeResults limit col (arr # rest) = consumeArr limit col arr"
    if "arr \<noteq> [] \<and> limit \<le> length (consumeArr limit col arr)"
    using that by (simp add: consumeResults_stop)
qed

lemma consumeResults_skip_empty:
  "consumeResults limit col (pre @ [] # post) = consumeResults limit col (pre @ post)"
  by (induction pre arbitrary: col) (simp_all add: Let_def)

text \<open>
  C8. A per-entity fetch whose \<open>try\<close> body throws, by a failed request or later, returns
  \<open>[]\<close>, and the aggregation treats that result as if the entity were not in the window:
  the results before and after it are consumed as without it.
\<close>

theorem entity_failure_is_empty_result:
  "fetchFilingsBody (Inl e) tk c lim ff = Inl e \<and>
   (fetchFilingsBody res tk c lim ff = Inl e' \<longrightarrow>
      fetchFilingsFromSECByCIK res tk c lim ff = [] \<and>
      consumeResults limit col (pre @ fetchFilingsFromSECByCIK res tk c lim ff # post) =
        consumeResults limit col (pre @ post)) \<and>
   (fetchFilingsBody (w_submissions w j c) (w_entityTickers w j c) c 10 ff = Inl e' \<longrightarrow>
      perEntity w ff j c = [])"
  by (simp add: fetchFilingsBody_def fetchFilingsFromSECByCIK_def perEntity_def consumeResults_skip_empty)



text \<open>
  Witness for C5: twelve entities, batch size 5, limit 3. One window of five CIKs is
  issued, three filings are collected from its first three entities, and no second
  window follows. With limit 7 a second window is issued at 5 collected, and no third.
\<close>

theorem fetchLoop_stops_at_budget_witness:
  "issuedWindows twelveEntities (Some ''10-K'') 3 =
     [(0, [''0000000001'', ''0000000002'', ''0000000003'', ''0000000004'', ''0000000005''])] \<and>
   map cik (collectedFilings twelveEntities (Some ''10-K'') 3) =
     [''0000000001'', ''0000000002'', ''0000000003''] \<and>
   map fst (issuedWindows twelveEntities (Some ''10-K'') 7) = [0, 5] \<and>
   length (collectedFilings twelveEntities (Some ''10-K'') 7) = 7 \<and>
   length (perEntity scenarioWorld None 2 ''0000320193'') = 3 \<and>
   fetchLoop (perEntity scenarioWorld None) 3 [''0001652044'', ''0000320193''] 0
      \<lparr>collected = perEntity scenarioWorld None 2 ''0000320193'', issued = []\<rparr>
     = \<lparr>collected = perEntity scenarioWorld None 2 ''0000320193'', issued = []\<rparr> \<and>
   length (consumeArr 2 [] (perEntity scenarioWorld None 0 ''0001652044'')) = 2 \<and>
   consumeResults 2 [] [perEntity scenarioWorld None 0 ''0001652044'', perEntity scenarioWorld None 2 ''0000320193'']
     = perEntity scenarioWorld None 0 ''0001652044''"
  using fetchLoop_stops_at_budget[where w = twelveEntities and ff = "Some ''10-K''" and limit = 3
      and st = "\<lparr>collected = perEntity scenarioWorld None 2 ''0000320193'', issued = []\<rparr>"
      and fetch = "perEntity scenarioWorld None" and ciks = "[''0001652044'', ''0000320193'']" and i = 0
      and arr = "perEntity scenarioWorld None 0 ''0001652044''" and col = "[]"
      and rest = "[perEntity scenarioWorld None 2 ''0000320193'']"]
    fetchLoop_stops_at_budget[where w = twelveEntities and ff = "Some ''10-K''" and limit = 7
      and st = "\<lparr>collected = [], issued = []\<rparr>"
      and fetch = "perEntity scenarioWorld None" and ciks = "[]" and i = 0
      and arr = "[]" and col = "[]" and rest = "[]"]
    fetchLoop_stops_at_budget[where w = scenarioWorld and ff = None and limit = 2
      and st = "\<lparr>collected = [], issued = []\<rparr>"
      and fetch = "perEntity scenarioWorld None" and ciks = "[]" and i = 0
      and arr = "perEntity scenarioWorld None 0 ''0001652044''" and col = "[]"
      and rest = "[perEntity scenarioWorld None 2 ''0000320193'']"]
  by code_simp

text \<open>
  Witness for C8: an entity whose \<open>form\<close> array is missing throws a \<open>TypeError\<close>, one whose
  request fails a \<open>NetworkError\<close>; both give \<open>[]\<close>, and the filings of the entities around
  them are collected in full.
\<close>

theorem entity_failure_is_empty_result_witness:
  "fetchFilingsBody (Inr brokenFilings) (Inl NetworkError) ''0000000007'' 10 None = Inl TypeError \<and>
   fetchFilingsFromSECByCIK (Inr brokenFilings) (Inl NetworkError) ''0000000007'' 10 None = [] \<and>
   fetchFilingsBody (w_submissions scenarioWorld 3 ''0000000007'') (w_entityTickers scenarioWorld 3 ''0000000007'')
      ''0000000007'' 10 None = Inl NetworkError \<and>
   perEntity scenarioWorld None 3 ''0000000007'' = [] \<and>
   map accessionNumber
     (consumeResults 10 []
        ([perEntity scenarioWorld None 0 ''0001652044'']
          @ fetchFilingsFromSECByCIK (Inr brokenFilings) (Inl NetworkError) ''0000000007'' 10 None
          # [perEntity scenarioWorld None 2 ''0000320193''])) =
     [Some ''0001652044-24-000001'', Some ''0001652044-24-000002'', Some ''0000320193-24-000001'',
      Some ''0000320193-24-000002'', Some ''0000320193-24-000003'']"
  using entity_failure_is_empty_result[where e = NetworkError and res = "Inr brokenFilings"
      and tk = "Inl NetworkError" and c = "''0000000007''" and lim = 10 and ff = None and e' = TypeError
      and limit = 10 and col = "[]" and pre = "[perEntity scenarioWorld None 0 ''0001652044'']"
      and post = "[perEntity scenarioWorld None 2 ''0000320193'']" and w = scenarioWorld and j = 3]
    entity_failure_is_empty_result[where e = NetworkError and res = "Inr brokenFilings"
      and tk = "Inl NetworkError" and c = "''0000000007''" and lim = 10 and ff = None and e' = NetworkError
      and limit = 10 and col = "[]" and pre = "[]" and post = "[]" and w = scenarioWorld and j = 3]
  by code_simp

section \<open>The window of the per-entity fetch\<close>

lemma at_index_take: "i < n \<Longrightarrow> at_index (map_option (take n) arr) i = at_index arr i"
  by (cases arr) (auto simp: at_index_def)

lemma collectFilings_firstEntries:
  "\<forall>i \<in> set idxs. i < n \<Longrightarrow>
   collectFilings c nm tk (firstEntries n rc) ff idxs fs = collectFilings c nm tk rc ff idxs fs"
  by (induction idxs arbitrary: fs)
     (auto simp: firstEntries_def at_index_take split: sum.splits bool.splits)

lemma length_collectFilings:
  "collectFilings c nm tk rc ff idxs fs = Inr out \<Longrightarrow> length out \<le> length fs + length idxs"
proof (induction idxs arbitrary: fs)
  case Nil
  then show ?case by simp
next
  case (Cons i idxs)
  from Cons.prems show ?case
    by (auto split: sum.splits bool.splits dest!: Cons.IH)
qed

lemma collectFilings_origin:
  "collectFilings c nm tk rc ff idxs fs = Inr out \<Longrightarrow> f \<in> set out \<Longrightarrow>
   f \<in> set fs \<or>
   (\<exists>i \<in> set idxs. at_index (r_accessionNumber rc) i = Inr (accessionNumber f) \<and>
      at_index (r_form rc) i = Inr (form f) \<and> filteredOut ff (form f) = Inr False)"
proof (induction idxs arbitrary: fs)
  case Nil
  then show ?case by simp
next
  case (Cons i idxs)
  from Cons.prems show ?case
    by (auto split: sum.splits bool.splits dest!: Cons.IH)
qed

lemma fetchFilings_window_example:
  "fetchFilingsFromSECByCIK (Inr appleFilings) (Inl NetworkError) ''0000320193'' 2 (Some ''10-k'') = [] \<and>
   (2::nat) \<le> 2 \<and>
   at_index (Some [''8-K'', ''8-K'', ''10-K'']) 2 = Inr (Some ''10-K'') \<and>
   filteredOut (Some ''10-k'') (Some ''10-K'') = Inr False"
  by code_simp

text \<open>
  C10. The per-entity fetch reads only the entries below index
  \<open>min(accessionNumber.length, limit)\<close>: cutting the four arrays to that length changes
  nothing, the result is no longer than that window, and every returned filing comes
  from an index of the window whose form passes the filter. So a filter can leave fewer
  than \<open>limit\<close> filings, even none, while a matching filing stands at an index beyond the
  window.
\<close>

theorem fetchFilings_window:
  assumes "s_recent data = Some rc" and "r_accessionNumber rc = Some acc"
  shows "fetchFilingsFromSECByCIK (Inr data) tk c limit ff =
           fetchFilingsFromSECByCIK
             (Inr (data\<lparr>s_recent := Some (firstEntries (min (length acc) limit) rc)\<rparr>)) tk c limit ff \<and>
         length (fetchFilingsFromSECByCIK (Inr data) tk c limit ff) \<le> min (length acc) limit \<and>
         (\<forall>f \<in> set (fetchFilingsFromSECByCIK (Inr data) tk c limit ff).
            \<exists>i \<in> set [0..<min (length acc) limit].
              at_index (r_accessionNumber rc) i = Inr (accessionNumber f) \<and>
              at_index (r_form rc) i = Inr (form f) \<and> filteredOut ff (form f) = Inr False) \<and>
         (\<exists>data' tk' c' limit' ff' forms i fm.
            fetchFilingsFromSECByCIK (Inr data') tk' c' limit' ff' = [] \<and>
            map_option r_form (s_recent data') = Some forms \<and> limit' \<le> i \<and>
            at_index forms i = Inr (Some fm) \<and> filteredOut ff' (Some fm) = Inr False)"
proof (intro conjI ballI)
  let ?n = "min (length acc) limit"
  have "min (length (take ?n acc)) limit = ?n" by simp
  then show "fetchFilingsFromSECByCIK (Inr data) tk c limit ff =
           fetchFilingsFromSECByCIK (Inr (data\<lparr>s_recent := Some (firstEntries ?n rc)\<rparr>)) tk c limit ff"
    using assms collectFilings_firstEntries[of "[0..<?n]" ?n]
    by (simp add: fetchFilingsFromSECByCIK_def fetchFilingsBody_def
          firstEntries_def[of ?n rc, THEN arg_cong[of _ _ r_accessionNumber]])
  show "length (fetchFilingsFromSECByCIK (Inr data) tk c limit ff) \<le> ?n"
    using assms
    by (auto simp: fetchFilingsFromSECByCIK_def fetchFilingsBody_def split: sum.splits
             dest!: length_collectFilings)
  show "\<exists>data' tk' c' limit' ff' forms i fm.
            fetchFilingsFromSECByCIK (Inr data') tk' c' limit' ff' = [] \<and>
            map_option r_form (s_recent data') = Some forms \<and> limit' \<le> i \<and>
            at_index forms i = Inr (Some fm) \<and> filteredOut ff' (Some fm) = Inr False"
    using fetchFilings_window_example
    by (intro exI[of _ appleFilings] exI[of _ "Inl NetworkError"] exI[of _ "''0000320193''"]
          exI[of _ "2::nat"] exI[of _ "Some ''10-k''"] exI[of _ "Some [''8-K'', ''8-K'', ''10-K'']"]
          exI[of _ "2::nat"] exI[of _ "''10-K''"])
       (simp add: appleFilings_def)
  fix f assume f: "f \<in> set (fetchFilingsFromSECByCIK (Inr data) tk c limit ff)"
  let ?run = "collectFilings c (js_or (s_name data) []) (lookupTicker tk c) rc ff [0..<?n] []"
  from f assms obtain out where out: "?run = Inr out" "f \<in> set out"
    by (cases ?run) (auto simp: fetchFilingsFromSECByCIK_def fetchFilingsBody_def)
  from collectFilings_origin[OF out]
  show "\<exists>i \<in> set [0..<?n]. at_index (r_accessionNumber rc) i = Inr (accessionNumber f) \<and>
              at_index (r_form rc) i = Inr (form f) \<and> filteredOut ff (form f) = Inr False"
    by auto
qed

text \<open>
  Witness for C10: Apple's three filings are 8-K, 8-K, 10-K. With limit 2 and the filter
  \<open>10-k\<close> the fetch returns nothing, although the filing at index 2 matches; with limit 3
  it returns that filing; without a filter and with limit 2 it returns the first two.
\<close>

theorem fetchFilings_window_witness:
  "map_option r_accessionNumber (s_recent appleFilings) =
     Some (Some [''0000320193-24-000001'', ''0000320193-24-000002'', ''0000320193-24-000003'']) \<and>
   fetchFilingsFromSECByCIK (Inr appleFilings) (Inl NetworkError) ''0000320193'' 2 (Some ''10-k'') = [] \<and>
   map accessionNumber
     (fetchFilingsFromSECByCIK (Inr appleFilings) (Inl NetworkError) ''0000320193'' 3 (Some ''10-k''))
     = [Some ''0000320193-24-000003''] \<and>
   map accessionNumber
     (fetchFilingsFromSECByCIK (Inr appleFilings) (Inl NetworkError) ''0000320193'' 2 None)
     = [Some ''0000320193-24-000001'', Some ''0000320193-24-000002''] \<and>
   fetchFilingsFromSECByCIK
     (Inr (appleFilings\<lparr>s_recent := map_option (firstEntries 2) (s_recent appleFilings)\<rparr>))
     (Inl NetworkError) ''0000320193'' 2 None
     = fetchFilingsFromSECByCIK (Inr appleFilings) (Inl NetworkError) ''0000320193'' 2 None"
proof -
  let ?rc = "\<lparr>r_accessionNumber =
           Some [''0000320193-24-000001'', ''0000320193-24-000002'', ''0000320193-24-000003''],
         r_filingDate = Some [''2024-03-01'', ''2024-02-01'', ''2024-01-01''],
         r_form = Some [''8-K'', ''8-K'', ''10-K''],
         r_primaryDocument = Some [''a.htm'', ''b.htm'', ''c.htm'']\<rparr>"
  have r: "s_recent appleFilings = Some ?rc"
    by (simp add: appleFilings_def)
  have a: "r_accessionNumber ?rc
       = Some [''0000320193-24-000001'', ''0000320193-24-000002'', ''0000320193-24-000003'']"
    by simp
  note w2 = fetchFilings_window[OF r a, of "Inl NetworkError" "''0000320193''" 2 "Some ''10-k''"]
  note w3 = fetchFilings_window[OF r a, of "Inl NetworkError" "''0000320193''" 3 "Some ''10-k''"]
  note w0 = fetchFilings_window[OF r a, of "Inl NetworkError" "''0000320193''" 2 None]
  show ?thesis
    using w2[THEN conjunct2, THEN conjunct1] w3[THEN conjunct2, THEN conjunct2, THEN conjunct1]
      w0[THEN conjunct1] w0[THEN conjunct2, THEN conjunct2, THEN conjunct1]
    by code_simp
qed

section \<open>Ranking\<close>

lemma countLoop_filter:
  "countLoop lower kws n = n + length (filter (str_includes lower) kws)"
  by (induction kws arbitrary: n) auto

lemma countKeywordPresence_filter:
  "countKeywordPresence text keywords =
     (if text = [] then 0 else length (filter (str_includes (toLowerCase text)) keywords))"
  by (simp add: countKeywordPresence_def countLoop_filter)

lemma countKeywordPresence_none:
  "\<forall>kw \<in> set keywords. \<not> str_includes (toLowerCase text) kw \<Longrightarrow> countKeywordPresence text keywords = 0"
  by (simp add: countKeywordPresence_filter)

lemma lowerChar_idem: "lowerChar (lowerChar c) = lowerChar c"
  by (simp add: lowerChar_def upperLetters_def lowerLetters_def)

lemma toLowerCase_idem: "toLowerCase (toLowerCase s) = toLowerCase s"
  by (simp add: toLowerCase_def lowerChar_idem)

lemma score_scoreContent:
  "score (scoreContent content keywords b c) =
     3 * nameMatches (scoreContent content keywords b c) + contentMatches (scoreContent content keywords b c)"
  by (simp add: scoreContent_def Let_def)

lemma nameMatches_scoreName:
  "nameMatches (scoreName keywords h) = countKeywordPresence (toLowerCase (js_or (name h) [])) keywords"
  by (simp add: scoreName_def Let_def hit.defs candidate.defs)

lemma nameMatches_scoreContent:
  "nameMatches (scoreContent content keywords b c) = nameMatches c"
  by (simp add: scoreContent_def Let_def)

lemma contentMatches_scoreContent:
  "contentMatches (scoreContent content keywords b c) =
     countKeywordPresence (getFileTextContent content c (Some b)) keywords"
  by (simp add: scoreContent_def Let_def)

text \<open>
  C6. After ranking, the score of every candidate is exactly three times its
  \<open>nameMatches\<close> plus its \<open>contentMatches\<close>; and a candidate in whose lower-cased name and
  lower-cased content preview no keyword occurs has score 0 (and is still among the
  ranked candidates).
\<close>

theorem rank_score_formula:
  "(\<forall>c \<in> set (rank content keywords hits). score c = 3 * nameMatches c + contentMatches c) \<and>
   (\<forall>(h, c) \<in> set (zip hits (scoreCandidates content keywords hits)).
      (\<forall>kw \<in> set keywords.
         \<not> str_includes (toLowerCase (js_or (name h) [])) kw \<and>
         \<not> str_includes
             (toLowerCase (getFileTextContent content (scoreName keywords h)
                (Some (previewBudget (map (scoreName keywords) hits))))) kw) \<longrightarrow>
      score c = 0 \<and> c \<in> set (rank content keywords hits))"
proof (intro conjI ballI)
  fix c assume "c \<in> set (rank content keywords hits)"
  then show "score c = 3 * nameMatches c + contentMatches c"
    by (auto simp: rank_def set_sortBy scoreCandidates_def Let_def score_scoreContent)
next
  fix p assume p: "p \<in> set (zip hits (scoreCandidates content keywords hits))"
  let ?b = "previewBudget (map (scoreName keywords) hits)"
  obtain h c where hc: "p = (h, c)" by (cases p)
  from p hc obtain i where i: "i < length hits" "h = hits ! i"
      "c = scoreCandidates content keywords hits ! i"
    by (auto simp: set_zip)
  have c: "c = scoreContent content keywords ?b (scoreName keywords h)"
    using i by (simp add: scoreCandidates_def Let_def)
  have mem: "c \<in> set (rank content keywords hits)"
    using i by (simp add: rank_def set_sortBy scoreCandidates_def Let_def)
  have zero: "score c = 0"
    if none: "\<forall>kw \<in> set keywords.
         \<not> str_includes (toLowerCase (js_or (name h) [])) kw \<and>
         \<not> str_includes (toLowerCase (getFileTextContent content (scoreName keywords h) (Some ?b))) kw"
  proof -
    have "nameMatches c = 0"
      using none
      by (simp add: c nameMatches_scoreContent nameMatches_scoreName countKeywordPresence_none
            toLowerCase_idem)
    moreover have "contentMatches c = 0"
      using none by (simp add: c contentMatches_scoreContent countKeywordPresence_none)
    ultimately show ?thesis
      by (simp add: c score_scoreContent)
  qed
  show "case p of (h, c) \<Rightarrow>
      (\<forall>kw \<in> set keywords.
         \<not> str_includes (toLowerCase (js_or (name h) [])) kw \<and>
         \<not> str_includes
             (toLowerCase (getFileTextContent content (scoreName keywords h) (Some ?b))) kw) \<longrightarrow>
      score c = 0 \<and> c \<in> set (rank content keywords hits)"
    using zero mem by (simp add: hc)
qed

text \<open>
  Witness for C6: with the keyword \<open>budget\<close> and no readable content, the budget report
  scores 3 and comes first, \<open>misc\<close> scores 0. With the keywords \<open>budget\<close> and \<open>travel\<close> and a
  content that holds both, the scores are \<open>3 * 1 + 2\<close> and \<open>3 * 0 + 2\<close>.
\<close>

theorem rank_score_formula_witness:
  "map score (rank (\<lambda>c. []) [''budget''] [misc, budgetReport]) = [3, 0] \<and>
   map hit_id (rank (\<lambda>c. []) [''budget''] [misc, budgetReport]) = [''01'', ''02''] \<and>
   map nameMatches (rank (\<lambda>c. ''Budget 2024: travel budget'') [''budget'', ''travel''] [misc, budgetReport]) = [1, 0] \<and>
   map contentMatches (rank (\<lambda>c. ''Budget 2024: travel budget'') [''budget'', ''travel''] [misc, budgetReport]) = [2, 2] \<and>
   map score (rank (\<lambda>c. ''Budget 2024: travel budget'') [''budget'', ''travel''] [misc, budgetReport]) = [5, 2]"
  using rank_score_formula[of "\<lambda>c. []" "[''budget'']" "[misc, budgetReport]"]
    rank_score_formula[of "\<lambda>c. ''Budget 2024: travel budget''" "[''budget'', ''travel'']" "[misc, budgetReport]"]
  by code_simp

text \<open>
  C7 (code_bug). \<open>extractKeywordsArray\<close> keeps a word as often as the query repeats it,
  and \<open>countKeywordPresence\<close>, commented "count presence (unique keywords matched)",
  counts every entry of the list: for the query \<open>budget budget\<close> and the file
  \<open>Budget Report.docx\<close>, \<open>nameMatches\<close> is 2 and the score 6, while one distinct keyword
  matches.
\<close>

theorem countKeywordPresence_counts_repeats:
  "extractKeywordsArray (Some ''budget budget'') = [''budget'', ''budget''] \<and>
   nameMatches (scoreName (extractKeywordsArray (Some ''budget budget'')) budgetReport) = 2 \<and>
   card (set (filter (str_includes (toLowerCase ''Budget Report.docx''))
      (extractKeywordsArray (Some ''budget budget'')))) = 1 \<and>
   map score (rank (\<lambda>c. []) (extractKeywordsArray (Some ''budget budget'')) [budgetReport]) = [6]"
  by code_simp

end
